theory Spec2Isabelle
  imports Complex_Main
begin

section \<open>Configuration (src/lib/env.ts)\<close>

text \<open>
  JavaScript numbers that hold counters, minutes, hours and epoch milliseconds are
  modelled as unbounded integers. Only the fields of \<open>AppEnv\<close> that the authentication
  code reads are kept.
\<close>

record AppEnv =
  totpSecretBase32 :: string
  sessionSecret :: string
  sessionTtlHours :: int
  authMaxAttempts :: int
  authLockMinutes :: int

text \<open>
  \<open>optionalNumber value defaultValue minimum name\<close>: the variable is absent (\<open>None\<close>),
  or it holds a number; a number below the minimum is refused.
\<close>

datatype error = ConfigError | StorageError | ResourceNotFound | VerifierError | ZodError

definition optionalNumber :: "int option \<Rightarrow> int \<Rightarrow> int \<Rightarrow> error + int" where
  "optionalNumber v defaultValue minimum =
     (case v of
        None \<Rightarrow> Inr defaultValue
      | Some parsed \<Rightarrow> if parsed < minimum then Inl ConfigError else Inr parsed)"

text \<open>
  \<open>getEnv\<close> for the fields above: both secrets are required, the three numbers have the
  defaults 12, 10 and 30 and the minimum 1, and the session secret has at least 32
  characters.
\<close>

definition getEnv ::
  "string option \<Rightarrow> string option \<Rightarrow> int option \<Rightarrow> int option \<Rightarrow> int option \<Rightarrow> error + AppEnv" where
  "getEnv totp secret ttl maxA lockM =
     (case totp of None \<Rightarrow> Inl ConfigError | Some ts \<Rightarrow>
      case secret of None \<Rightarrow> Inl ConfigError | Some ss \<Rightarrow>
      case optionalNumber ttl 12 1 of Inl e \<Rightarrow> Inl e | Inr h \<Rightarrow>
      case optionalNumber maxA 10 1 of Inl e \<Rightarrow> Inl e | Inr m \<Rightarrow>
      case optionalNumber lockM 30 1 of Inl e \<Rightarrow> Inl e | Inr l \<Rightarrow>
        if length ss < 32 then Inl ConfigError
        else Inr \<lparr>totpSecretBase32 = ts, sessionSecret = ss, sessionTtlHours = h,
                  authMaxAttempts = m, authLockMinutes = l\<rparr>)"

section \<open>Lockout store (lib/auth/lockout)\<close>

record AuthStateEntity =
  partitionKey :: string
  rowKey :: string
  failedAttempts :: int
  lockUntilEpochMs :: int
  updatedAt :: string

record LockoutStatus =
  isLocked :: bool
  ls_failedAttempts :: int
  maxAttempts :: int
  ls_lockUntilEpochMs :: int
  retryAfterSeconds :: int

text \<open>
  What the table holds under the fixed key: \<open>Partial<AuthStateEntity>\<close>, any property
  may be missing.
\<close>

record PartialEntity =
  p_failedAttempts :: "int option"
  p_lockUntilEpochMs :: "int option"
  p_updatedAt :: "string option"

type_synonym jsstring = "nat list"

datatype event =
    TableGet
  | TableUpsert AuthStateEntity
  | VerifyTotp jsstring
  | VerifySync jsstring

text \<open>
  The world outside the process: the singleton row of the auth table (\<open>None\<close>: the
  service answers 404), whether the storage service answers at all, and the log of the
  calls made to the table and to the verifier.
\<close>

record world =
  table :: "PartialEntity option"
  storageUp :: bool
  trace :: "event list"

definition PARTITION_KEY :: string where "PARTITION_KEY = ''auth''"
definition ROW_KEY :: string where "ROW_KEY = ''global''"

definition isNotFoundError :: "error \<Rightarrow> bool" where
  "isNotFoundError e = (e = ResourceNotFound)"

text \<open>\<open>stamp\<close> is the text of \<open>new Date().toISOString()\<close> at the call.\<close>

definition defaultEntity :: "string \<Rightarrow> AuthStateEntity" where
  "defaultEntity stamp =
     \<lparr>partitionKey = PARTITION_KEY, rowKey = ROW_KEY, failedAttempts = 0,
      lockUntilEpochMs = 0, updatedAt = stamp\<rparr>"

definition normalizeEntity :: "string \<Rightarrow> PartialEntity \<Rightarrow> AuthStateEntity" where
  "normalizeEntity stamp entity =
     \<lparr>partitionKey = PARTITION_KEY, rowKey = ROW_KEY,
      failedAttempts = (case p_failedAttempts entity of None \<Rightarrow> 0 | Some n \<Rightarrow> n),
      lockUntilEpochMs = (case p_lockUntilEpochMs entity of None \<Rightarrow> 0 | Some n \<Rightarrow> n),
      updatedAt = (case p_updatedAt entity of None \<Rightarrow> stamp | Some s \<Rightarrow> s)\<rparr>"

definition initializeStorage :: "world \<Rightarrow> (error + unit) \<times> world" where
  "initializeStorage w = (if storageUp w then Inr () else Inl StorageError, w)"

definition table_getEntity :: "world \<Rightarrow> (error + PartialEntity) \<times> world" where
  "table_getEntity w =
     (if \<not> storageUp w then (Inl StorageError, w)
      else (case table w of None \<Rightarrow> Inl ResourceNotFound | Some r \<Rightarrow> Inr r,
            w\<lparr>trace := trace w @ [TableGet]\<rparr>))"

definition table_upsertEntity :: "AuthStateEntity \<Rightarrow> world \<Rightarrow> (error + unit) \<times> world" where
  "table_upsertEntity e w =
     (if \<not> storageUp w then (Inl StorageError, w)
      else (Inr (),
            w\<lparr>table := Some \<lparr>p_failedAttempts = Some (failedAttempts e),
                               p_lockUntilEpochMs = Some (lockUntilEpochMs e),
                               p_updatedAt = Some (updatedAt e)\<rparr>,
              trace := trace w @ [TableUpsert e]\<rparr>))"

definition getEntity :: "string \<Rightarrow> world \<Rightarrow> (error + AuthStateEntity) \<times> world" where
  "getEntity stamp w =
     (case initializeStorage w of
        (Inl e, w1) \<Rightarrow> (Inl e, w1)
      | (Inr _, w1) \<Rightarrow>
          (case table_getEntity w1 of
             (Inr entity, w2) \<Rightarrow> (Inr (normalizeEntity stamp entity), w2)
           | (Inl err, w2) \<Rightarrow>
               if \<not> isNotFoundError err then (Inl err, w2)
               else let created = defaultEntity stamp in
                    (case table_upsertEntity created w2 of
                       (Inl e, w3) \<Rightarrow> (Inl e, w3)
                     | (Inr _, w3) \<Rightarrow> (Inr created, w3))))"

definition saveEntity :: "AuthStateEntity \<Rightarrow> world \<Rightarrow> (error + unit) \<times> world" where
  "saveEntity entity w =
     (case initializeStorage w of
        (Inl e, w1) \<Rightarrow> (Inl e, w1)
      | (Inr _, w1) \<Rightarrow> table_upsertEntity entity w1)"

text \<open>
  \<open>toStatus\<close> reads the clock (\<open>now\<close>) and the configuration; \<open>Math.ceil\<close> of the
  quotient by 1000 is the ceiling of the real quotient.
\<close>

definition toStatus :: "AppEnv \<Rightarrow> int \<Rightarrow> AuthStateEntity \<Rightarrow> LockoutStatus" where
  "toStatus env now entity =
     (let retry = max 0 \<lceil>real_of_int (lockUntilEpochMs entity - now) / 1000\<rceil> in
      \<lparr>isLocked = (retry > 0),
       ls_failedAttempts = failedAttempts entity,
       maxAttempts = authMaxAttempts env,
       ls_lockUntilEpochMs = lockUntilEpochMs entity,
       retryAfterSeconds = retry\<rparr>)"

definition getLockoutStatus ::
  "AppEnv \<Rightarrow> string \<Rightarrow> int \<Rightarrow> world \<Rightarrow> (error + LockoutStatus) \<times> world" where
  "getLockoutStatus env stamp now w =
     (case getEntity stamp w of
        (Inl e, w1) \<Rightarrow> (Inl e, w1)
      | (Inr entity, w1) \<Rightarrow> (Inr (toStatus env now entity), w1))"

text \<open>
  The clock is read four times in \<open>recordFailedAttempt\<close>, in this order: \<open>stamp0\<close> in
  \<open>getEntity\<close>, \<open>now\<close>, \<open>stamp1\<close> for \<open>updatedAt\<close>, and \<open>nowS\<close> in \<open>toStatus\<close>.
\<close>

definition recordFailedAttempt ::
  "AppEnv \<Rightarrow> string \<Rightarrow> int \<Rightarrow> string \<Rightarrow> int \<Rightarrow> world \<Rightarrow> (error + LockoutStatus) \<times> world" where
  "recordFailedAttempt env stamp0 now stamp1 nowS w =
     (case getEntity stamp0 w of
        (Inl e, w1) \<Rightarrow> (Inl e, w1)
      | (Inr entity, w1) \<Rightarrow>
          if lockUntilEpochMs entity > now then (Inr (toStatus env nowS entity), w1)
          else
            let fa = failedAttempts entity + 1;
                locks = (fa \<ge> authMaxAttempts env);
                fa' = (if locks then 0 else fa);
                lu' = (if locks then now + authLockMinutes env * 60 * 1000 else 0);
                nextEntity = \<lparr>partitionKey = PARTITION_KEY, rowKey = ROW_KEY,
                              failedAttempts = fa', lockUntilEpochMs = lu',
                              updatedAt = stamp1\<rparr>
            in (case saveEntity nextEntity w1 of
                  (Inl e, w2) \<Rightarrow> (Inl e, w2)
                | (Inr _, w2) \<Rightarrow> (Inr (toStatus env nowS nextEntity), w2)))"

definition resetFailedAttempts :: "string \<Rightarrow> world \<Rightarrow> (error + unit) \<times> world" where
  "resetFailedAttempts stamp w =
     saveEntity \<lparr>partitionKey = PARTITION_KEY, rowKey = ROW_KEY, failedAttempts = 0,
                 lockUntilEpochMs = 0, updatedAt = stamp\<rparr> w"

section \<open>Strings\<close>

text \<open>
  A JavaScript string is a sequence of UTF-16 code units (\<open>jsstring\<close>). \<open>js\<close> turns a
  literal into one.
\<close>

definition js :: "string \<Rightarrow> jsstring" where
  "js s = map of_char s"

text \<open>The characters matched by \<open>\s\<close> and removed by \<open>String.prototype.trim\<close>.\<close>

definition isWhitespace :: "nat \<Rightarrow> bool" where
  "isWhitespace c =
     (c \<in> set [9, 10, 11, 12, 13, 32, 160, 5760, 8232, 8233, 8239, 8287, 12288, 65279]
      \<or> (8192 \<le> c \<and> c \<le> 8202))"

text \<open>The characters matched by \<open>\d\<close>: the ASCII digits.\<close>

definition isDigit :: "nat \<Rightarrow> bool" where
  "isDigit c = (48 \<le> c \<and> c \<le> 57)"

definition trim :: "jsstring \<Rightarrow> jsstring" where
  "trim s = rev (dropWhile isWhitespace (rev (dropWhile isWhitespace s)))"

text \<open>\<open>s.replace(/\s+/g, "")\<close>: every run of whitespace is deleted.\<close>

definition removeWhitespace :: "jsstring \<Rightarrow> jsstring" where
  "removeWhitespace s = filter (\<lambda>c. \<not> isWhitespace c) s"

text \<open>\<open>/^\d{6}$/.test(s)\<close>.\<close>

definition sixDigits :: "jsstring \<Rightarrow> bool" where
  "sixDigits s = (length s = 6 \<and> list_all isDigit s)"

section \<open>TOTP verifier (src/lib/auth/totp.ts)\<close>

text \<open>
  \<open>verifySync\<close> is otplib's function, a parameter here: given the secret and the
  token it answers \<open>valid\<close> or throws. It owns the time-step comparison (period 30,
  tolerance 1). Each call of \<open>verifyTotpCode\<close> and each call it makes to \<open>verifySync\<close>
  is logged in the trace.
\<close>

definition verifyTotpCode ::
  "(string \<Rightarrow> jsstring \<Rightarrow> error + bool) \<Rightarrow> AppEnv \<Rightarrow> jsstring \<Rightarrow> world
     \<Rightarrow> (error + bool) \<times> world" where
  "verifyTotpCode verifySync env code w =
     (let w1 = w\<lparr>trace := trace w @ [VerifyTotp code]\<rparr>;
          normalized = trim (removeWhitespace code)
      in if \<not> sixDigits normalized then (Inr False, w1)
         else (verifySync (totpSecretBase32 env) normalized,
               w1\<lparr>trace := trace w1 @ [VerifySync normalized]\<rparr>))"

section \<open>Session tokens (lib/auth/session)\<close>

datatype json =
    JNull
  | JBool bool
  | JNum int
  | JStr jsstring
  | JArr "json list"
  | JObj "(jsstring \<times> json) list"

record jwtHeader =
  alg :: string

record jwtPayload =
  claim_authenticated :: "json option"
  claim_iat :: "json option"
  claim_nbf :: "json option"
  claim_exp :: "json option"

text \<open>
  A token string is represented by what the compact deserialisation makes of it:
  \<open>Malformed\<close> for every string that has no three segments, whose segments do not decode,
  or whose header or payload is not a JSON object; otherwise the protected header, the
  claims and the signature bytes.
\<close>

datatype token = Malformed | Jws jwtHeader jwtPayload "nat list"

datatype joseError =
    JWSInvalid
  | JOSEAlgNotAllowed
  | JWSSignatureVerificationFailed
  | JWTClaimValidationFailed
  | JWTExpired

definition SESSION_ALGO :: string where "SESSION_ALGO = ''HS256''"

text \<open>\<open>epoch(date)\<close> of jose: \<open>Math.floor(date.getTime() / 1000)\<close>.\<close>

definition epoch :: "int \<Rightarrow> int" where
  "epoch ms = ms div 1000"

definition isNumber :: "json \<Rightarrow> bool" where
  "isNumber v = (case v of JNum _ \<Rightarrow> True | _ \<Rightarrow> False)"

definition numberOf :: "json \<Rightarrow> int" where
  "numberOf v = (case v of JNum n \<Rightarrow> n | _ \<Rightarrow> 0)"

text \<open>
  Modelled from the spec: \<open>jwtVerify\<close> and \<open>SignJWT\<close> belong to the jose package, which
  is not part of the sources. The spec describes a symmetric MAC-based signature over
  the token with issued-at and expiry claims. \<open>mac key (header, payload)\<close> is the MAC
  of the signing input under the key, a parameter. \<open>jwtVerify\<close> refuses a token that
  does not parse, whose algorithm is not in the allowed list, whose signature is not
  the MAC under the key, whose \<open>iat\<close>, \<open>nbf\<close> or \<open>exp\<close> is present and not a number,
  whose \<open>nbf\<close> lies after the current second, or whose \<open>exp\<close> is not after the
  current second; otherwise it returns the payload.
\<close>

definition jwtVerify ::
  "(string \<Rightarrow> jwtHeader \<times> jwtPayload \<Rightarrow> nat list) \<Rightarrow> token \<Rightarrow> string \<Rightarrow> string list \<Rightarrow> int
     \<Rightarrow> joseError + jwtPayload" where
  "jwtVerify mac jwt key algorithms nowMs =
     (case jwt of
        Malformed \<Rightarrow> Inl JWSInvalid
      | Jws hdr payload sig \<Rightarrow>
          if alg hdr \<notin> set algorithms then Inl JOSEAlgNotAllowed
          else if sig \<noteq> mac key (hdr, payload) then Inl JWSSignatureVerificationFailed
          else if (case claim_iat payload of None \<Rightarrow> False | Some v \<Rightarrow> \<not> isNumber v)
            then Inl JWTClaimValidationFailed
          else if (case claim_nbf payload of None \<Rightarrow> False
                   | Some v \<Rightarrow> \<not> isNumber v \<or> numberOf v > epoch nowMs)
            then Inl JWTClaimValidationFailed
          else (case claim_exp payload of
                  None \<Rightarrow> Inr payload
                | Some v \<Rightarrow>
                    if \<not> isNumber v then Inl JWTClaimValidationFailed
                    else if numberOf v \<le> epoch nowMs then Inl JWTExpired
                    else Inr payload))"

text \<open>
  Modelled from the spec: \<open>new SignJWT(payload).setProtectedHeader(..).setIssuedAt()
  .setExpirationTime("<h>h").sign(key)\<close>. \<open>iatMs\<close> and \<open>expMs\<close> are the clock readings
  of \<open>setIssuedAt\<close> and \<open>setExpirationTime\<close>; the expiry is \<open>h\<close> hours after the
  second of \<open>expMs\<close>.
\<close>

definition signJWT ::
  "(string \<Rightarrow> jwtHeader \<times> jwtPayload \<Rightarrow> nat list) \<Rightarrow> json option \<Rightarrow> string \<Rightarrow> int \<Rightarrow> int
     \<Rightarrow> int \<Rightarrow> string \<Rightarrow> token" where
  "signJWT mac authenticated algo iatMs expMs hours key =
     (let hdr = \<lparr>alg = algo\<rparr>;
          payload = \<lparr>claim_authenticated = authenticated,
                     claim_iat = Some (JNum (epoch iatMs)),
                     claim_nbf = None,
                     claim_exp = Some (JNum (epoch expMs + hours * 3600))\<rparr>
      in Jws hdr payload (mac key (hdr, payload)))"

definition createSessionToken ::
  "(string \<Rightarrow> jwtHeader \<times> jwtPayload \<Rightarrow> nat list) \<Rightarrow> AppEnv \<Rightarrow> int \<Rightarrow> int \<Rightarrow> token" where
  "createSessionToken mac env iatMs expMs =
     signJWT mac (Some (JBool True)) SESSION_ALGO iatMs expMs (sessionTtlHours env)
       (sessionSecret env)"

text \<open>\<open>nowMs\<close> is the clock reading inside \<open>jwtVerify\<close>; every exception is caught.\<close>

definition verifySessionToken ::
  "(string \<Rightarrow> jwtHeader \<times> jwtPayload \<Rightarrow> nat list) \<Rightarrow> AppEnv \<Rightarrow> int \<Rightarrow> token \<Rightarrow> bool" where
  "verifySessionToken mac env nowMs tok =
     (case jwtVerify mac tok (sessionSecret env) [SESSION_ALGO] nowMs of
        Inl _ \<Rightarrow> False
      | Inr payload \<Rightarrow> claim_authenticated payload = Some (JBool True))"

section \<open>Login route (POST)\<close>

record response =
  status :: nat
  body_error :: "string option"
  body_lockout :: "LockoutStatus option"
  body_success :: bool
  sessionCookie :: "(token \<times> int) option"

text \<open>
  \<open>bodySchema.parse\<close>: the body is an object whose \<open>code\<close> (the last one, if the key
  is repeated) is a string; the string is trimmed and must not be empty.
\<close>

definition bodySchema_parse :: "json \<Rightarrow> error + jsstring" where
  "bodySchema_parse body =
     (case body of
        JObj props \<Rightarrow>
          (case map_of (rev props) (js ''code'') of
             Some (JStr s) \<Rightarrow>
               (let t = trim s in if length t \<ge> 1 then Inr t else Inl ZodError)
           | _ \<Rightarrow> Inl ZodError)
      | _ \<Rightarrow> Inl ZodError)"

text \<open>
  The clock readings of one request, in the order the handler takes them:
  \<open>getLockoutStatus\<close> (stamp, now), \<open>recordFailedAttempt\<close> (stamp, now, stamp, now),
  \<open>resetFailedAttempts\<close> (stamp), \<open>createSessionToken\<close> (issued-at, expiry base).
\<close>

record postClock =
  statusStamp :: string
  statusNow :: int
  failStamp0 :: string
  failNow :: int
  failStamp1 :: string
  failStatusNow :: int
  resetStamp :: string
  issuedAtMs :: int
  expiryBaseMs :: int

text \<open>
  The request body is \<open>None\<close> when \<open>request.json()\<close> throws. An exception that leaves
  the handler is \<open>Inl\<close>.
\<close>

definition POST ::
  "(string \<Rightarrow> jwtHeader \<times> jwtPayload \<Rightarrow> nat list) \<Rightarrow> (string \<Rightarrow> jsstring \<Rightarrow> error + bool)
     \<Rightarrow> AppEnv \<Rightarrow> postClock \<Rightarrow> json option \<Rightarrow> world \<Rightarrow> (error + response) \<times> world" where
  "POST mac verifySync env clk body w =
     (case (case body of None \<Rightarrow> Inl ZodError | Some j \<Rightarrow> bodySchema_parse j) of
        Inl _ \<Rightarrow>
          (Inr \<lparr>status = 400, body_error = Some ''Invalid request payload'',
                body_lockout = None, body_success = False, sessionCookie = None\<rparr>, w)
      | Inr code \<Rightarrow>
          (case getLockoutStatus env (statusStamp clk) (statusNow clk) w of
             (Inl e, w1) \<Rightarrow> (Inl e, w1)
           | (Inr currentLockout, w1) \<Rightarrow>
               if isLocked currentLockout then
                 (Inr \<lparr>status = 423,
                       body_error = Some ''Too many failed attempts. Try again later.'',
                       body_lockout = Some currentLockout, body_success = False,
                       sessionCookie = None\<rparr>, w1)
               else
                 (case verifyTotpCode verifySync env code w1 of
                    (Inl e, w2) \<Rightarrow> (Inl e, w2)
                  | (Inr valid, w2) \<Rightarrow>
                      if \<not> valid then
                        (case recordFailedAttempt env (failStamp0 clk) (failNow clk)
                                (failStamp1 clk) (failStatusNow clk) w2 of
                           (Inl e, w3) \<Rightarrow> (Inl e, w3)
                         | (Inr lockout, w3) \<Rightarrow>
                             (Inr \<lparr>status = (if isLocked lockout then 423 else 401),
                                   body_error =
                                     Some (if isLocked lockout
                                           then ''Too many failed attempts. Try again later.''
                                           else ''Invalid authenticator code''),
                                   body_lockout = Some lockout, body_success = False,
                                   sessionCookie = None\<rparr>, w3))
                      else
                        (case resetFailedAttempts (resetStamp clk) w2 of
                           (Inl e, w3) \<Rightarrow> (Inl e, w3)
                         | (Inr _, w3) \<Rightarrow>
                             (Inr \<lparr>status = 200, body_error = None, body_lockout = None,
                                   body_success = True,
                                   sessionCookie =
                                     Some (createSessionToken mac env (issuedAtMs clk)
                                             (expiryBaseMs clk),
                                           sessionTtlHours env * 60 * 60)\<rparr>, w3)))))"

section \<open>Vocabulary of the properties\<close>

text \<open>
  The malformed login payloads: no JSON body, a body that is not an object, an object
  without \<open>code\<close>, with a \<open>code\<close> that is not a string, or with a \<open>code\<close> that is
  empty once trimmed.
\<close>

definition malformedPayload :: "json option \<Rightarrow> bool" where
  "malformedPayload body =
     (case body of
        None \<Rightarrow> True
      | Some (JObj props) \<Rightarrow>
          (case map_of (rev props) (js ''code'') of
             None \<Rightarrow> True
           | Some (JStr s) \<Rightarrow> list_all isWhitespace s
           | Some _ \<Rightarrow> True)
      | Some _ \<Rightarrow> True)"

text \<open>
  The counter and the lock of the store as \<open>getEntity\<close> reads them: those of the row, or
  of the default entity when there is no row.
\<close>

definition lockoutRecord :: "world \<Rightarrow> int \<times> int" where
  "lockoutRecord w =
     (let e = (case table w of None \<Rightarrow> defaultEntity '''' | Some r \<Rightarrow> normalizeEntity '''' r)
      in (failedAttempts e, lockUntilEpochMs e))"

text \<open>A sequence of status queries, each with its two clock readings.\<close>

fun statusQueries :: "AppEnv \<Rightarrow> (string \<times> int) list \<Rightarrow> world \<Rightarrow> world" where
  "statusQueries env [] w = w"
| "statusQueries env ((stamp, now) # qs) w =
     statusQueries env qs (snd (getLockoutStatus env stamp now w))"

text \<open>
  The bound on a stored record: the counter is below the ceiling, and it is 0 whenever
  a lock is set.
\<close>

definition counterInvariant :: "AppEnv \<Rightarrow> int \<Rightarrow> int \<Rightarrow> bool" where
  "counterInvariant env n l = (n < authMaxAttempts env \<and> (l \<noteq> 0 \<longrightarrow> n = 0))"

text \<open>The entities written to the table, in a stretch of the trace.\<close>

definition upserts :: "event list \<Rightarrow> AuthStateEntity list" where
  "upserts evs = concat (map (\<lambda>ev. case ev of TableUpsert e \<Rightarrow> [e] | _ \<Rightarrow> []) evs)"

text \<open>
  What can happen to the store: a status query, the two writers of the lockout module,
  a login request, and the storage service going down or coming back. Each carries its
  clock readings; a login carries the verifier's behaviour at that moment.
\<close>

datatype op =
    StatusQuery string int
  | FailedAttempt string int string int
  | ResetAttempts string
  | Login "string \<Rightarrow> jsstring \<Rightarrow> error + bool" postClock "json option"
  | Storage bool

fun exec ::
  "(string \<Rightarrow> jwtHeader \<times> jwtPayload \<Rightarrow> nat list) \<Rightarrow> AppEnv \<Rightarrow> op \<Rightarrow> world \<Rightarrow> world" where
  "exec mac env (StatusQuery stamp now) w = snd (getLockoutStatus env stamp now w)"
| "exec mac env (FailedAttempt stamp0 now stamp1 nowS) w =
     snd (recordFailedAttempt env stamp0 now stamp1 nowS w)"
| "exec mac env (ResetAttempts stamp) w = snd (resetFailedAttempts stamp w)"
| "exec mac env (Login verifySync clk body) w = snd (POST mac verifySync env clk body w)"
| "exec mac env (Storage b) w = w\<lparr>storageUp := b\<rparr>"

fun run ::
  "(string \<Rightarrow> jwtHeader \<times> jwtPayload \<Rightarrow> nat list) \<Rightarrow> AppEnv \<Rightarrow> op list \<Rightarrow> world \<Rightarrow> world" where
  "run mac env [] w = w"
| "run mac env (x # xs) w = run mac env xs (exec mac env x w)"

text \<open>The bound, for the row of the table; an absent row satisfies it.\<close>

definition rowInvariant :: "AppEnv \<Rightarrow> PartialEntity option \<Rightarrow> bool" where
  "rowInvariant env t =
     (case t of None \<Rightarrow> True
      | Some r \<Rightarrow> (\<exists>n l. p_failedAttempts r = Some n \<and> p_lockUntilEpochMs r = Some l
                        \<and> counterInvariant env n l))"

text \<open>
  One step from \<open>w\<close> to \<open>w'\<close> extends the trace, writes only entities within the bound,
  and leaves the row as it was or within the bound.
\<close>

definition step_ok :: "AppEnv \<Rightarrow> world \<Rightarrow> world \<Rightarrow> bool" where
  "step_ok env w w' \<longleftrightarrow>
     (\<exists>evs. trace w' = trace w @ evs
        \<and> (\<forall>e\<in>set (upserts evs). counterInvariant env (failedAttempts e) (lockUntilEpochMs e)))
     \<and> (table w' = table w \<or> rowInvariant env (table w') )"

section \<open>Sample configurations and stores\<close>

definition exampleEnv :: "int \<Rightarrow> int \<Rightarrow> AppEnv" where
  "exampleEnv m l =
     \<lparr>totpSecretBase32 = ''JBSWY3DPEHPK3PXP'',
      sessionSecret = ''0123456789abcdef0123456789abcdef'',
      sessionTtlHours = 12, authMaxAttempts = m, authLockMinutes = l\<rparr>"

definition exampleRow :: "int \<Rightarrow> int \<Rightarrow> PartialEntity" where
  "exampleRow n until =
     \<lparr>p_failedAttempts = Some n, p_lockUntilEpochMs = Some until,
      p_updatedAt = Some ''2026-01-01T00:00:00.000Z''\<rparr>"

definition exampleWorld :: "int \<Rightarrow> int \<Rightarrow> world" where
  "exampleWorld n until = \<lparr>table = Some (exampleRow n until), storageUp = True, trace = []\<rparr>"

definition exampleBody :: "string \<Rightarrow> json" where
  "exampleBody c = JObj [(js ''code'', JStr (js c))]"

definition exampleClock :: "int \<Rightarrow> postClock" where
  "exampleClock t =
     \<lparr>statusStamp = ''s1'', statusNow = t, failStamp0 = ''s2'', failNow = t + 1,
      failStamp1 = ''s3'', failStatusNow = t + 2, resetStamp = ''s4'',
      issuedAtMs = t + 3, expiryBaseMs = t + 3\<rparr>"

definition acceptAll :: "string \<Rightarrow> jsstring \<Rightarrow> error + bool" where
  "acceptAll secret tok = Inr True"

definition rejectAll :: "string \<Rightarrow> jsstring \<Rightarrow> error + bool" where
  "rejectAll secret tok = Inr False"

definition exampleMac :: "string \<Rightarrow> jwtHeader \<times> jwtPayload \<Rightarrow> nat list" where
  "exampleMac key m = map of_char key"

section \<open>Properties of the lockout store\<close>

lemma ceil_div_1000: "\<lceil>real_of_int x / 1000\<rceil> = - ((- x) div 1000)"
proof -
  have "\<lceil>real_of_int x / real_of_int 1000\<rceil> = - \<lfloor>real_of_int (- x) / real_of_int 1000\<rfloor>"
    by (simp add: ceiling_def)
  also have "\<dots> = - ((- x) div 1000)"
    by (simp only: floor_divide_of_int_eq)
  finally show ?thesis by simp
qed

lemma retry_pos_iff: "0 < \<lceil>real_of_int x / 1000\<rceil> \<longleftrightarrow> 0 < x"
  by (simp add: ceil_div_1000) linarith

lemma isLocked_iff: "isLocked (toStatus env now e) \<longleftrightarrow> now < lockUntilEpochMs e"
proof -
  let ?c = "\<lceil>real_of_int (lockUntilEpochMs e - now) / 1000\<rceil>"
  have "isLocked (toStatus env now e) \<longleftrightarrow> 0 < max 0 ?c"
    by (simp add: toStatus_def Let_def del: of_int_diff)
  also have "\<dots> \<longleftrightarrow> 0 < ?c"
    by (simp add: max_def del: of_int_diff)
  also have "\<dots> \<longleftrightarrow> 0 < lockUntilEpochMs e - now"
    by (rule retry_pos_iff)
  finally show ?thesis by simp
qed

lemma getEntity_down: "\<not> storageUp w \<Longrightarrow> getEntity stamp w = (Inl StorageError, w)"
  by (simp add: getEntity_def initializeStorage_def)

lemma getEntity_some:
  "storageUp w \<Longrightarrow> table w = Some r \<Longrightarrow>
   getEntity stamp w = (Inr (normalizeEntity stamp r), w\<lparr>trace := trace w @ [TableGet]\<rparr>)"
  by (simp add: getEntity_def initializeStorage_def table_getEntity_def)

lemma getEntity_none:
  "storageUp w \<Longrightarrow> table w = None \<Longrightarrow>
   getEntity stamp w =
     (Inr (defaultEntity stamp),
      w\<lparr>table := Some \<lparr>p_failedAttempts = Some 0, p_lockUntilEpochMs = Some 0,
                         p_updatedAt = Some stamp\<rparr>,
        trace := trace w @ [TableGet, TableUpsert (defaultEntity stamp)]\<rparr>)"
  by (simp add: getEntity_def initializeStorage_def table_getEntity_def isNotFoundError_def
      table_upsertEntity_def defaultEntity_def Let_def)

lemma saveEntity_up:
  "storageUp w \<Longrightarrow>
   saveEntity e w =
     (Inr (), w\<lparr>table := Some \<lparr>p_failedAttempts = Some (failedAttempts e),
                               p_lockUntilEpochMs = Some (lockUntilEpochMs e),
                               p_updatedAt = Some (updatedAt e)\<rparr>,
                 trace := trace w @ [TableUpsert e]\<rparr>)"
  by (simp add: saveEntity_def initializeStorage_def table_upsertEntity_def)

lemma saveEntity_down: "\<not> storageUp w \<Longrightarrow> saveEntity e w = (Inl StorageError, w)"
  by (simp add: saveEntity_def initializeStorage_def)

lemma getEntity_storageUp: "storageUp (snd (getEntity stamp w)) = storageUp w"
  by (cases "storageUp w"; cases "table w")
     (auto simp: getEntity_down getEntity_some getEntity_none)

lemma getEntity_Inr_up: "fst (getEntity stamp w) = Inr e \<Longrightarrow> storageUp w"
  by (cases "storageUp w") (auto simp: getEntity_down)

lemma getLockoutStatus_some:
  "storageUp w \<Longrightarrow> table w = Some r \<Longrightarrow>
   getLockoutStatus env stamp now w =
     (Inr (toStatus env now (normalizeEntity stamp r)), w\<lparr>trace := trace w @ [TableGet]\<rparr>)"
  by (simp add: getLockoutStatus_def getEntity_some)

lemma example_getEntity:
  "getEntity stamp (exampleWorld n until) =
     (Inr (normalizeEntity stamp (exampleRow n until)),
      (exampleWorld n until)\<lparr>trace := [TableGet]\<rparr>)"
  by (simp add: getEntity_some exampleWorld_def)

lemma example_normalize [simp]:
  "failedAttempts (normalizeEntity stamp (exampleRow n until)) = n"
  "lockUntilEpochMs (normalizeEntity stamp (exampleRow n until)) = until"
  by (simp_all add: normalizeEntity_def exampleRow_def)

lemma example_table [simp]: "table (exampleWorld n until) = Some (exampleRow n until)"
  by (simp add: exampleWorld_def)

lemma example_row_fields [simp]:
  "p_failedAttempts (exampleRow n until) = Some n"
  "p_lockUntilEpochMs (exampleRow n until) = Some until"
  by (simp_all add: exampleRow_def)

lemma example_body_parse: "bodySchema_parse (exampleBody ''123456'') = Inr (js ''123456'')"
  by (simp add: bodySchema_parse_def exampleBody_def js_def trim_def isWhitespace_def)

lemma dropWhile_none: "\<forall>c\<in>set xs. \<not> P c \<Longrightarrow> dropWhile P xs = xs"
  by (cases xs) auto

lemma trim_removeWhitespace: "trim (removeWhitespace s) = removeWhitespace s"
  by (simp add: trim_def removeWhitespace_def dropWhile_none)

lemma trim_empty_iff: "trim s = [] \<longleftrightarrow> list_all isWhitespace s"
proof
  assume t: "trim s = []"
  then have a: "\<forall>c\<in>set (dropWhile isWhitespace s). isWhitespace c"
    by (simp add: trim_def dropWhile_eq_Nil_conv)
  have "dropWhile isWhitespace s = []"
  proof (rule ccontr)
    assume ne: "dropWhile isWhitespace s \<noteq> []"
    then have "\<not> isWhitespace (hd (dropWhile isWhitespace s))"
      by (rule hd_dropWhile)
    moreover have "hd (dropWhile isWhitespace s) \<in> set (dropWhile isWhitespace s)"
      using ne by simp
    ultimately show False using a by blast
  qed
  then show "list_all isWhitespace s"
    unfolding dropWhile_eq_Nil_conv list_all_iff .
next
  assume "list_all isWhitespace s"
  then have "dropWhile isWhitespace s = []"
    unfolding dropWhile_eq_Nil_conv list_all_iff .
  then show "trim s = []"
    by (simp only: trim_def rev.simps dropWhile.simps)
qed

lemma example_up [simp]: "storageUp (exampleWorld n until)"
  by (simp add: exampleWorld_def)

lemma fst_verifyTotpCode:
  "fst (verifyTotpCode verifySync env code w) = fst (verifyTotpCode verifySync env code w')"
  by (simp add: verifyTotpCode_def Let_def)

lemma verifyTotpCode_world:
  "storageUp (snd (verifyTotpCode verifySync env code w)) = storageUp w
   \<and> table (snd (verifyTotpCode verifySync env code w)) = table w"
  by (simp add: verifyTotpCode_def Let_def)

lemma epoch_shift: "epoch (t + k * 1000) = epoch t + k"
  by (simp add: epoch_def)

lemma verify_created:
  "verifySessionToken mac env t (createSessionToken mac env iatMs n)
     \<longleftrightarrow> epoch t < epoch n + sessionTtlHours env * 3600"
  by (auto simp: verifySessionToken_def createSessionToken_def signJWT_def jwtVerify_def
      Let_def isNumber_def numberOf_def SESSION_ALGO_def)

lemma trim_whitespace_length: "list_all isWhitespace s \<Longrightarrow> length (trim s) = 0"
  using trim_empty_iff [of s] by simp

lemma toStatus_cong:
  "failedAttempts e = failedAttempts e' \<Longrightarrow> lockUntilEpochMs e = lockUntilEpochMs e' \<Longrightarrow>
   toStatus env now e = toStatus env now e'"
  by (simp add: toStatus_def)

lemma getLockoutStatus_fst:
  "fst (getLockoutStatus env stamp now w) =
     (if storageUp w
      then Inr (toStatus env now
                 \<lparr>partitionKey = PARTITION_KEY, rowKey = ROW_KEY,
                  failedAttempts = fst (lockoutRecord w),
                  lockUntilEpochMs = snd (lockoutRecord w), updatedAt = ''''\<rparr>)
      else Inl StorageError)"
proof (cases "storageUp w")
  case False
  then show ?thesis by (simp add: getLockoutStatus_def getEntity_down)
next
  case True
  show ?thesis
  proof (cases "table w")
    case None
    with True show ?thesis
      by (simp add: getLockoutStatus_def getEntity_none lockoutRecord_def Let_def
          defaultEntity_def toStatus_def)
  next
    case (Some r)
    with True show ?thesis
      by (simp add: getLockoutStatus_def getEntity_some lockoutRecord_def Let_def
          normalizeEntity_def toStatus_def)
  qed
qed

lemma getLockoutStatus_snd:
  "lockoutRecord (snd (getLockoutStatus env stamp now w)) = lockoutRecord w
   \<and> storageUp (snd (getLockoutStatus env stamp now w)) = storageUp w
   \<and> (table w \<noteq> None \<longrightarrow> table (snd (getLockoutStatus env stamp now w)) = table w)"
proof (cases "storageUp w")
  case False
  then show ?thesis by (simp add: getLockoutStatus_def getEntity_down)
next
  case True
  show ?thesis
  proof (cases "table w")
    case None
    with True show ?thesis
      by (simp add: getLockoutStatus_def getEntity_none lockoutRecord_def Let_def
          defaultEntity_def normalizeEntity_def)
  next
    case (Some r)
    with True show ?thesis
      by (simp add: getLockoutStatus_def getEntity_some lockoutRecord_def)
  qed
qed

lemma statusQueries_keeps:
  "lockoutRecord (statusQueries env qs w) = lockoutRecord w
   \<and> storageUp (statusQueries env qs w) = storageUp w
   \<and> (table w \<noteq> None \<longrightarrow> table (statusQueries env qs w) = table w)"
proof (induction qs arbitrary: w)
  case Nil
  show ?case by simp
next
  case (Cons q qs)
  obtain stamp now where q: "q = (stamp, now)" by (cases q)
  let ?w = "snd (getLockoutStatus env stamp now w)"
  have a: "lockoutRecord ?w = lockoutRecord w" "storageUp ?w = storageUp w"
          "table w \<noteq> None \<longrightarrow> table ?w = table w"
    using getLockoutStatus_snd [of env stamp now w] by simp_all
  show ?case
    using Cons.IH [of ?w] a by (auto simp: q)
qed

lemma upserts_simps [simp]:
  "upserts [] = []"
  "upserts (TableUpsert e # evs) = e # upserts evs"
  "upserts (TableGet # evs) = upserts evs"
  "upserts (VerifyTotp c # evs) = upserts evs"
  "upserts (VerifySync c # evs) = upserts evs"
  "upserts (xs @ ys) = upserts xs @ upserts ys"
  by (simp_all add: upserts_def)

lemma step_ok_refl: "step_ok env w w"
  by (simp add: step_ok_def)

lemma step_ok_trans:
  assumes "step_ok env w w1" and "step_ok env w1 w2"
  shows "step_ok env w w2"
proof -
  obtain e1 where e1: "trace w1 = trace w @ e1"
      "\<forall>e\<in>set (upserts e1). counterInvariant env (failedAttempts e) (lockUntilEpochMs e)"
    using assms(1) by (auto simp: step_ok_def)
  obtain e2 where e2: "trace w2 = trace w1 @ e2"
      "\<forall>e\<in>set (upserts e2). counterInvariant env (failedAttempts e) (lockUntilEpochMs e)"
    using assms(2) by (auto simp: step_ok_def)
  have tr: "trace w2 = trace w @ (e1 @ e2)" using e1 e2 by simp
  have ev: "\<forall>e\<in>set (upserts (e1 @ e2)).
              counterInvariant env (failedAttempts e) (lockUntilEpochMs e)"
    using e1 e2 by auto
  have tb: "table w2 = table w \<or> rowInvariant env (table w2)"
    using assms by (auto simp: step_ok_def)
  show ?thesis
    unfolding step_ok_def using tr ev tb by blast
qed

lemma step_ok_trace_only:
  "table w' = table w \<Longrightarrow> trace w' = trace w @ evs \<Longrightarrow> upserts evs = [] \<Longrightarrow> step_ok env w w'"
  unfolding step_ok_def by (metis empty_iff list.set(1))

lemma saveEntity_ok:
  assumes "counterInvariant env (failedAttempts e) (lockUntilEpochMs e)"
  shows "step_ok env w (snd (saveEntity e w))"
proof (cases "storageUp w")
  case False
  then show ?thesis by (simp add: saveEntity_down step_ok_refl)
next
  case True
  have "trace (snd (saveEntity e w)) = trace w @ [TableUpsert e]"
    using True by (simp add: saveEntity_up)
  moreover have "rowInvariant env (table (snd (saveEntity e w)))"
    using True assms by (simp add: saveEntity_up rowInvariant_def)
  moreover have "\<forall>x\<in>set (upserts [TableUpsert e]).
                   counterInvariant env (failedAttempts x) (lockUntilEpochMs x)"
    using assms by simp
  ultimately show ?thesis
    unfolding step_ok_def by blast
qed

lemma default_ok:
  "1 \<le> authMaxAttempts env \<Longrightarrow>
   counterInvariant env (failedAttempts (defaultEntity s)) (lockUntilEpochMs (defaultEntity s))"
  by (simp add: counterInvariant_def defaultEntity_def)

lemma getEntity_ok:
  assumes "1 \<le> authMaxAttempts env"
  shows "step_ok env w (snd (getEntity stamp w))"
proof (cases "storageUp w")
  case False
  then show ?thesis by (simp add: getEntity_down step_ok_refl)
next
  case True
  show ?thesis
  proof (cases "table w")
    case (Some r)
    with True show ?thesis
      by (simp add: getEntity_some step_ok_trace_only [where evs = "[TableGet]"])
  next
    case None
    have "trace (snd (getEntity stamp w))
            = trace w @ [TableGet, TableUpsert (defaultEntity stamp)]"
      using True None by (simp add: getEntity_none)
    moreover have "rowInvariant env (table (snd (getEntity stamp w)))"
      using True None assms by (simp add: getEntity_none rowInvariant_def counterInvariant_def)
    moreover have "\<forall>x\<in>set (upserts [TableGet, TableUpsert (defaultEntity stamp)]).
                   counterInvariant env (failedAttempts x) (lockUntilEpochMs x)"
      using default_ok [OF assms] by simp
    ultimately show ?thesis
      unfolding step_ok_def by blast
  qed
qed

lemma getLockoutStatus_ok:
  assumes "1 \<le> authMaxAttempts env"
  shows "step_ok env w (snd (getLockoutStatus env stamp now w))"
proof -
  have "snd (getLockoutStatus env stamp now w) = snd (getEntity stamp w)"
    by (simp add: getLockoutStatus_def split: prod.splits sum.splits)
  then show ?thesis using getEntity_ok [OF assms] by simp
qed

lemma recordFailedAttempt_ok:
  assumes "1 \<le> authMaxAttempts env"
  shows "step_ok env w (snd (recordFailedAttempt env stamp0 now stamp1 nowS w))"
proof -
  obtain r w1 where g: "getEntity stamp0 w = (r, w1)" by (cases "getEntity stamp0 w")
  have s1: "step_ok env w w1" using getEntity_ok [OF assms, of w stamp0] g by simp
  show ?thesis
  proof (cases r)
    case (Inl err)
    then show ?thesis using g s1 by (simp add: recordFailedAttempt_def)
  next
    case (Inr entity)
    show ?thesis
    proof (cases "lockUntilEpochMs entity > now")
      case True
      then show ?thesis using g s1 Inr by (simp add: recordFailedAttempt_def)
    next
      case False
      define nxt where "nxt =
        \<lparr>partitionKey = PARTITION_KEY, rowKey = ROW_KEY,
         failedAttempts = (if failedAttempts entity + 1 \<ge> authMaxAttempts env then 0
                           else failedAttempts entity + 1),
         lockUntilEpochMs = (if failedAttempts entity + 1 \<ge> authMaxAttempts env
                             then now + authLockMinutes env * 60 * 1000 else 0),
         updatedAt = stamp1\<rparr>"
      have inv: "counterInvariant env (failedAttempts nxt) (lockUntilEpochMs nxt)"
        using assms by (simp add: nxt_def counterInvariant_def)
      have "snd (recordFailedAttempt env stamp0 now stamp1 nowS w) = snd (saveEntity nxt w1)"
        using g Inr False
        by (simp add: recordFailedAttempt_def Let_def nxt_def split: prod.splits sum.splits)
      then show ?thesis
        using step_ok_trans [OF s1 saveEntity_ok [OF inv, of w1]] by simp
    qed
  qed
qed

lemma resetFailedAttempts_ok:
  assumes "1 \<le> authMaxAttempts env"
  shows "step_ok env w (snd (resetFailedAttempts stamp w))"
  unfolding resetFailedAttempts_def
  by (rule saveEntity_ok) (use assms in \<open>simp add: counterInvariant_def\<close>)

lemma verifyTotpCode_ok: "step_ok env w (snd (verifyTotpCode verifySync env code w))"
proof (cases "sixDigits (trim (removeWhitespace code))")
  case True
  then show ?thesis
    by (simp add: verifyTotpCode_def Let_def
        step_ok_trace_only [where evs = "[VerifyTotp code, VerifySync (trim (removeWhitespace code))]"])
next
  case False
  then show ?thesis
    by (simp add: verifyTotpCode_def Let_def step_ok_trace_only [where evs = "[VerifyTotp code]"])
qed

lemma POST_ok:
  assumes "1 \<le> authMaxAttempts env"
  shows "step_ok env w (snd (POST mac verifySync env clk body w))"
proof (cases "case body of None \<Rightarrow> Inl ZodError | Some j \<Rightarrow> bodySchema_parse j")
  case (Inl err)
  then show ?thesis by (simp add: POST_def step_ok_refl)
next
  case (Inr code)
  obtain r1 w1 where g: "getLockoutStatus env (statusStamp clk) (statusNow clk) w = (r1, w1)"
    by (cases "getLockoutStatus env (statusStamp clk) (statusNow clk) w")
  have s1: "step_ok env w w1"
    using getLockoutStatus_ok [OF assms, of w "statusStamp clk" "statusNow clk"] g by simp
  obtain r2 w2 where v: "verifyTotpCode verifySync env code w1 = (r2, w2)"
    by (cases "verifyTotpCode verifySync env code w1")
  have s2: "step_ok env w w2"
    using step_ok_trans [OF s1 verifyTotpCode_ok [of env w1 verifySync code]] v by simp
  have s3: "step_ok env w (snd (recordFailedAttempt env (failStamp0 clk) (failNow clk)
                                 (failStamp1 clk) (failStatusNow clk) w2))"
    using step_ok_trans [OF s2 recordFailedAttempt_ok [OF assms]] by simp
  have s4: "step_ok env w (snd (resetFailedAttempts (resetStamp clk) w2))"
    using step_ok_trans [OF s2 resetFailedAttempts_ok [OF assms]] by simp
  show ?thesis
    using Inr g v s1 s2 s3 s4
    by (auto simp: POST_def split: prod.splits sum.splits)
qed

lemma exec_ok:
  assumes "1 \<le> authMaxAttempts env"
  shows "step_ok env w (exec mac env x w)"
proof (cases x)
  case (Storage b)
  then show ?thesis by (simp add: step_ok_trace_only [where evs = "[]"])
qed (simp_all add: getLockoutStatus_ok recordFailedAttempt_ok resetFailedAttempts_ok POST_ok assms)

lemma run_invariant:
  assumes "1 \<le> authMaxAttempts env"
  shows "rowInvariant env (table w) \<Longrightarrow> rowInvariant env (table (run mac env xs w))"
proof (induction xs arbitrary: w)
  case Nil
  then show ?case by simp
next
  case (Cons x xs)
  have "rowInvariant env (table (exec mac env x w))"
    using exec_ok [OF assms, of w mac x] Cons.prems by (auto simp: step_ok_def)
  then show ?case using Cons.IH by simp
qed

lemma getEnv_bounds:
  "getEnv totp secret ttl maxA lockM = Inr env \<Longrightarrow>
   1 \<le> sessionTtlHours env \<and> 1 \<le> authMaxAttempts env \<and> 1 \<le> authLockMinutes env
   \<and> 32 \<le> length (sessionSecret env)"
  by (auto simp: getEnv_def optionalNumber_def split: option.splits if_splits sum.splits)

text \<open>
  C7. \<open>toStatus\<close> (the spec's \<open>computeStatus\<close>) is a function of the record, the clock
  reading and the configured ceiling: \<open>retryAfterSeconds\<close> is
  \<open>max(0, ceil((lockUntil - now) / 1000))\<close>, \<open>isLocked\<close> says that it is positive, the
  other three fields are the inputs, and \<open>retryAfterSeconds\<close> is never negative.
\<close>

theorem toStatus_fields:
  "retryAfterSeconds (toStatus env now e)
     = max 0 \<lceil>real_of_int (lockUntilEpochMs e - now) / 1000\<rceil>
   \<and> isLocked (toStatus env now e) = (retryAfterSeconds (toStatus env now e) > 0)
   \<and> ls_failedAttempts (toStatus env now e) = failedAttempts e
   \<and> maxAttempts (toStatus env now e) = authMaxAttempts env
   \<and> ls_lockUntilEpochMs (toStatus env now e) = lockUntilEpochMs e
   \<and> retryAfterSeconds (toStatus env now e) \<ge> 0"
  by (simp add: toStatus_def Let_def)

text \<open>
  C1. A record that is not locked at \<open>now\<close> (its \<open>lockUntilEpochMs\<close> is 0 or not after
  \<open>now\<close>, a clock reading that is not negative) with \<open>n\<close> failed attempts: after
  \<open>recordFailedAttempt\<close> the store holds \<open>n + 1\<close> attempts and no lock when \<open>n + 1\<close> is
  below \<open>authMaxAttempts\<close>; otherwise it holds 0 attempts and a lock until
  \<open>now + authLockMinutes * 60 * 1000\<close>, which is after \<open>now\<close>. The status returned is the
  one of the stored record.
\<close>

theorem recordFailedAttempt_unlocked:
  assumes rd: "fst (getEntity stamp0 w) = Inr e"
    and unl: "lockUntilEpochMs e = 0 \<or> lockUntilEpochMs e \<le> now"
    and now0: "0 \<le> now"
    and lm: "1 \<le> authLockMinutes env"
  shows "(failedAttempts e + 1 < authMaxAttempts env \<longrightarrow>
            table (snd (recordFailedAttempt env stamp0 now stamp1 nowS w))
              = Some \<lparr>p_failedAttempts = Some (failedAttempts e + 1),
                      p_lockUntilEpochMs = Some 0, p_updatedAt = Some stamp1\<rparr>
            \<and> fst (recordFailedAttempt env stamp0 now stamp1 nowS w)
              = Inr (toStatus env nowS
                      \<lparr>partitionKey = PARTITION_KEY, rowKey = ROW_KEY,
                       failedAttempts = failedAttempts e + 1, lockUntilEpochMs = 0,
                       updatedAt = stamp1\<rparr>))
       \<and> (failedAttempts e + 1 \<ge> authMaxAttempts env \<longrightarrow>
            table (snd (recordFailedAttempt env stamp0 now stamp1 nowS w))
              = Some \<lparr>p_failedAttempts = Some 0,
                      p_lockUntilEpochMs = Some (now + authLockMinutes env * 60 * 1000),
                      p_updatedAt = Some stamp1\<rparr>
            \<and> fst (recordFailedAttempt env stamp0 now stamp1 nowS w)
              = Inr (toStatus env nowS
                      \<lparr>partitionKey = PARTITION_KEY, rowKey = ROW_KEY,
                       failedAttempts = 0,
                       lockUntilEpochMs = now + authLockMinutes env * 60 * 1000,
                       updatedAt = stamp1\<rparr>)
            \<and> now + authLockMinutes env * 60 * 1000 > now)"
proof -
  obtain w1 where g: "getEntity stamp0 w = (Inr e, w1)"
    using rd by (cases "getEntity stamp0 w") simp
  have up: "storageUp w" using rd by (rule getEntity_Inr_up)
  have up1: "storageUp w1" using g getEntity_storageUp [of stamp0 w] up by simp
  have nl: "\<not> lockUntilEpochMs e > now" using unl now0 by auto
  show ?thesis
    using g nl up1 lm
    by (simp add: recordFailedAttempt_def Let_def saveEntity_up)
qed

theorem recordFailedAttempt_unlocked_witness:
  "table (snd (recordFailedAttempt (exampleEnv 3 30) ''a'' 1000 ''b'' 1001 (exampleWorld 1 0)))
     = Some \<lparr>p_failedAttempts = Some 2, p_lockUntilEpochMs = Some 0, p_updatedAt = Some ''b''\<rparr>
   \<and> table (snd (recordFailedAttempt (exampleEnv 3 30) ''a'' 1000 ''b'' 1001
                   (exampleWorld 2 900)))
     = Some \<lparr>p_failedAttempts = Some 0, p_lockUntilEpochMs = Some 1801000,
             p_updatedAt = Some ''b''\<rparr>"
proof -
  have a: "fst (getEntity ''a'' (exampleWorld 1 0))
             = Inr (normalizeEntity ''a'' (exampleRow 1 0))"
    by (simp add: example_getEntity)
  have b: "fst (getEntity ''a'' (exampleWorld 2 900))
             = Inr (normalizeEntity ''a'' (exampleRow 2 900))"
    by (simp add: example_getEntity)
  show ?thesis
    using recordFailedAttempt_unlocked [OF a, of 1000 "exampleEnv 3 30" "''b''" 1001]
      recordFailedAttempt_unlocked [OF b, of 1000 "exampleEnv 3 30" "''b''" 1001]
    by (simp add: exampleEnv_def)
qed

text \<open>
  C2. While the stored lock lies after the clock reading, a login request with a
  well-formed body is answered 423 with the current status; the only call made is one
  read of the table: nothing is written and neither \<open>verifyTotpCode\<close> nor \<open>verifySync\<close>
  is called, whatever the code. \<open>recordFailedAttempt\<close> itself, reached with the lock
  still ahead, returns the status of the record it read and writes nothing.
\<close>

theorem locked_login_rejected:
  assumes up: "storageUp w"
    and row: "table w = Some r"
    and lk: "p_lockUntilEpochMs r = Some until"
    and body: "bodySchema_parse j = Inr code"
  shows "(until > statusNow clk \<longrightarrow>
           POST mac verifySync env clk (Some j) w =
             (Inr \<lparr>status = 423,
                   body_error = Some ''Too many failed attempts. Try again later.'',
                   body_lockout = Some (toStatus env (statusNow clk)
                                          (normalizeEntity (statusStamp clk) r)),
                   body_success = False, sessionCookie = None\<rparr>,
              w\<lparr>trace := trace w @ [TableGet]\<rparr>))
       \<and> (until > now \<longrightarrow>
           recordFailedAttempt env stamp0 now stamp1 nowS w =
             (Inr (toStatus env nowS (normalizeEntity stamp0 r)),
              w\<lparr>trace := trace w @ [TableGet]\<rparr>))"
proof -
  have lu: "lockUntilEpochMs (normalizeEntity s r) = until" for s
    using lk by (simp add: normalizeEntity_def)
  show ?thesis
    using up row body
    by (simp add: POST_def getLockoutStatus_some isLocked_iff lu recordFailedAttempt_def
        getEntity_some)
qed

theorem locked_login_rejected_witness:
  "POST exampleMac acceptAll (exampleEnv 3 30) (exampleClock 1000)
        (Some (exampleBody ''123456'')) (exampleWorld 0 5000)
     = (Inr \<lparr>status = 423,
             body_error = Some ''Too many failed attempts. Try again later.'',
             body_lockout = Some \<lparr>isLocked = True, ls_failedAttempts = 0, maxAttempts = 3,
                                   ls_lockUntilEpochMs = 5000, retryAfterSeconds = 4\<rparr>,
             body_success = False, sessionCookie = None\<rparr>,
        (exampleWorld 0 5000)\<lparr>trace := [TableGet]\<rparr>)"
  using locked_login_rejected [of "exampleWorld 0 5000" "exampleRow 0 5000" 5000
      "exampleBody ''123456''" "js ''123456''" "exampleClock 1000" exampleMac acceptAll
      "exampleEnv 3 30" 4000 "''a''" "''b''" 4001]
  by (simp add: example_body_parse exampleClock_def toStatus_def exampleEnv_def exampleWorld_def)

text \<open>
  C3 as stated fails: after an expired lock the counter continues from the stored value
  (5 becomes 6), and with a ceiling of 1 the first failure after expiry locks again.
\<close>

theorem expired_lock_counterexample:
  "table (snd (recordFailedAttempt (exampleEnv 10 30) ''a'' 2000 ''b'' 2001 (exampleWorld 5 1000)))
     = Some \<lparr>p_failedAttempts = Some 6, p_lockUntilEpochMs = Some 0, p_updatedAt = Some ''b''\<rparr>
   \<and> table (snd (recordFailedAttempt (exampleEnv 1 30) ''a'' 2000 ''b'' 2001
                   (exampleWorld 0 1000)))
     = Some \<lparr>p_failedAttempts = Some 0, p_lockUntilEpochMs = Some 1802000,
             p_updatedAt = Some ''b''\<rparr>"
  by (simp add: recordFailedAttempt_def example_getEntity Let_def saveEntity_up
      exampleEnv_def)

text \<open>
  C3, amended. A record whose lock has expired and whose stored counter is 0, as in
  every locked record that \<open>recordFailedAttempt\<close> writes, with a ceiling of at least 2:
  \<open>recordFailedAttempt\<close> stores one failed attempt and no lock, and so does a login
  request with a well-formed body whose code the verifier refuses; the request reports
  the status of that record and sets no session.
\<close>

theorem expired_lock_fresh_counter:
  assumes up: "storageUp w"
    and row: "table w = Some r"
    and lk: "p_lockUntilEpochMs r = Some until"
    and fa: "p_failedAttempts r = Some 0"
    and mx: "2 \<le> authMaxAttempts env"
  shows "(until \<le> now \<longrightarrow>
           table (snd (recordFailedAttempt env stamp0 now stamp1 nowS w))
             = Some \<lparr>p_failedAttempts = Some 1, p_lockUntilEpochMs = Some 0,
                     p_updatedAt = Some stamp1\<rparr>)
       \<and> (until \<le> statusNow clk \<and> until \<le> failNow clk
            \<and> bodySchema_parse j = Inr code
            \<and> fst (verifyTotpCode verifySync env code w) = Inr False \<longrightarrow>
           table (snd (POST mac verifySync env clk (Some j) w))
             = Some \<lparr>p_failedAttempts = Some 1, p_lockUntilEpochMs = Some 0,
                     p_updatedAt = Some (failStamp1 clk)\<rparr>
           \<and> (\<exists>resp. fst (POST mac verifySync env clk (Some j) w) = Inr resp
                 \<and> body_lockout resp
                     = Some (toStatus env (failStatusNow clk)
                              \<lparr>partitionKey = PARTITION_KEY, rowKey = ROW_KEY,
                               failedAttempts = 1, lockUntilEpochMs = 0,
                               updatedAt = failStamp1 clk\<rparr>)
                 \<and> \<not> body_success resp \<and> sessionCookie resp = None))"
proof -
  have n: "lockUntilEpochMs (normalizeEntity s r) = until"
          "failedAttempts (normalizeEntity s r) = 0" for s
    using lk fa by (simp_all add: normalizeEntity_def)
  have rec: "until \<le> t \<Longrightarrow> storageUp v \<Longrightarrow> table v = Some r \<Longrightarrow>
      recordFailedAttempt env s0 t s1 tS v =
        (Inr (toStatus env tS \<lparr>partitionKey = PARTITION_KEY, rowKey = ROW_KEY,
                               failedAttempts = 1, lockUntilEpochMs = 0, updatedAt = s1\<rparr>),
         v\<lparr>table := Some \<lparr>p_failedAttempts = Some 1, p_lockUntilEpochMs = Some 0,
                            p_updatedAt = Some s1\<rparr>,
           trace := trace v @ [TableGet, TableUpsert
                      \<lparr>partitionKey = PARTITION_KEY, rowKey = ROW_KEY,
                       failedAttempts = 1, lockUntilEpochMs = 0, updatedAt = s1\<rparr>]\<rparr>)"
    for t v s0 s1 tS
    using mx by (simp add: recordFailedAttempt_def getEntity_some n Let_def saveEntity_up)
  have first: "until \<le> now \<longrightarrow>
           table (snd (recordFailedAttempt env stamp0 now stamp1 nowS w))
             = Some \<lparr>p_failedAttempts = Some 1, p_lockUntilEpochMs = Some 0,
                     p_updatedAt = Some stamp1\<rparr>"
    using up row by (simp add: rec)
  have second: "table (snd (POST mac verifySync env clk (Some j) w))
             = Some \<lparr>p_failedAttempts = Some 1, p_lockUntilEpochMs = Some 0,
                     p_updatedAt = Some (failStamp1 clk)\<rparr>
           \<and> (\<exists>resp. fst (POST mac verifySync env clk (Some j) w) = Inr resp
                 \<and> body_lockout resp
                     = Some (toStatus env (failStatusNow clk)
                              \<lparr>partitionKey = PARTITION_KEY, rowKey = ROW_KEY,
                               failedAttempts = 1, lockUntilEpochMs = 0,
                               updatedAt = failStamp1 clk\<rparr>)
                 \<and> \<not> body_success resp \<and> sessionCookie resp = None)"
    if a: "until \<le> statusNow clk" and b: "until \<le> failNow clk"
      and c: "bodySchema_parse j = Inr code"
      and d: "fst (verifyTotpCode verifySync env code w) = Inr False"
  proof -
    let ?w1 = "w\<lparr>trace := trace w @ [TableGet]\<rparr>"
    obtain w2 where v: "verifyTotpCode verifySync env code ?w1 = (Inr False, w2)"
      using d fst_verifyTotpCode [of verifySync env code ?w1 w]
      by (cases "verifyTotpCode verifySync env code ?w1") simp
    have w2: "storageUp w2" "table w2 = Some r"
      using verifyTotpCode_world [of verifySync env code ?w1] v up row by simp_all
    show ?thesis
      using a b c up row
      by (simp add: POST_def getLockoutStatus_some isLocked_iff n v rec [OF b w2])
  qed
  show ?thesis using first second by blast
qed


theorem expired_lock_fresh_counter_witness:
  "table (snd (recordFailedAttempt (exampleEnv 3 30) ''a'' 2000 ''b'' 2001 (exampleWorld 0 1000)))
     = Some \<lparr>p_failedAttempts = Some 1, p_lockUntilEpochMs = Some 0, p_updatedAt = Some ''b''\<rparr>
   \<and> table (snd (POST exampleMac rejectAll (exampleEnv 3 30) (exampleClock 2000)
                   (Some (exampleBody ''123456'')) (exampleWorld 0 1000)))
     = Some \<lparr>p_failedAttempts = Some 1, p_lockUntilEpochMs = Some 0,
             p_updatedAt = Some ''s3''\<rparr>"
proof -
  have v: "fst (verifyTotpCode rejectAll (exampleEnv 3 30) (js ''123456'') (exampleWorld 0 1000))
             = Inr False"
    by (simp add: verifyTotpCode_def Let_def rejectAll_def sixDigits_def)
  show ?thesis
    using expired_lock_fresh_counter [of "exampleWorld 0 1000" "exampleRow 0 1000" 1000
        "exampleEnv 3 30" 2000 "''a''" "''b''" 2001 "exampleClock 2000"
        "exampleBody ''123456''" "js ''123456''" rejectAll exampleMac] v
    by (simp add: example_body_parse exampleClock_def exampleEnv_def)
qed

text \<open>
  C4. \<open>verifyTotpCode\<close> hands a code to \<open>verifySync\<close> only when the code without its
  whitespace is exactly six ASCII digits, and then it hands over those six digits;
  for every other string it returns false without calling \<open>verifySync\<close>, so that nothing
  \<open>verifySync\<close> could throw reaches the caller.
\<close>

theorem verifyTotpCode_rejects_malformed:
  "verifyTotpCode verifySync env code w =
     (if length (removeWhitespace code) = 6 \<and> (\<forall>c\<in>set (removeWhitespace code). 48 \<le> c \<and> c \<le> 57)
      then (verifySync (totpSecretBase32 env) (removeWhitespace code),
            w\<lparr>trace := trace w @ [VerifyTotp code, VerifySync (removeWhitespace code)]\<rparr>)
      else (Inr False, w\<lparr>trace := trace w @ [VerifyTotp code]\<rparr>))"
  by (simp add: verifyTotpCode_def Let_def trim_removeWhitespace sixDigits_def list_all_iff
      isDigit_def)

theorem verifyTotpCode_rejects_malformed_witness:
  "verifyTotpCode acceptAll (exampleEnv 3 30) (js ''12 34'') (exampleWorld 0 0)
     = (Inr False, (exampleWorld 0 0)\<lparr>trace := [VerifyTotp (js ''12 34'')]\<rparr>)
   \<and> verifyTotpCode acceptAll (exampleEnv 3 30) (js '' 123 456 '') (exampleWorld 0 0)
     = (Inr True, (exampleWorld 0 0)\<lparr>trace := [VerifyTotp (js '' 123 456 ''),
                                                   VerifySync (js ''123456'')]\<rparr>)"
  using verifyTotpCode_rejects_malformed [of acceptAll "exampleEnv 3 30" "js ''12 34''"
      "exampleWorld 0 0"]
    verifyTotpCode_rejects_malformed [of acceptAll "exampleEnv 3 30" "js '' 123 456 ''"
      "exampleWorld 0 0"]
  by (simp add: js_def removeWhitespace_def isWhitespace_def acceptAll_def exampleWorld_def)


text \<open>
  C5. \<open>verifySessionToken\<close> answers true exactly for a token that parses, is signed
  with HS256 under the session secret, carries number-valued time claims with \<open>nbf\<close>
  not ahead of and \<open>exp\<close> after the current second, and whose payload has
  \<open>authenticated = true\<close>. A token that does not parse, a wrong signature, a reached
  expiry or another value of \<open>authenticated\<close> give false. The function returns a
  boolean for every token: no exception leaves it.
\<close>

theorem verifySessionToken_sound:
  "(verifySessionToken mac env nowMs tok \<longleftrightarrow>
      (\<exists>hdr payload.
          tok = Jws hdr payload (mac (sessionSecret env) (hdr, payload))
        \<and> alg hdr = ''HS256''
        \<and> (\<forall>v. claim_iat payload = Some v \<longrightarrow> isNumber v)
        \<and> (\<forall>v. claim_nbf payload = Some v \<longrightarrow> isNumber v \<and> numberOf v \<le> epoch nowMs)
        \<and> (\<forall>v. claim_exp payload = Some v \<longrightarrow> isNumber v \<and> epoch nowMs < numberOf v)
        \<and> claim_authenticated payload = Some (JBool True)))
   \<and> \<not> verifySessionToken mac env nowMs Malformed
   \<and> (sig \<noteq> mac (sessionSecret env) (h, p) \<longrightarrow> \<not> verifySessionToken mac env nowMs (Jws h p sig))
   \<and> (claim_exp p = Some (JNum e) \<and> e \<le> epoch nowMs
        \<longrightarrow> \<not> verifySessionToken mac env nowMs (Jws h p sig))
   \<and> (claim_authenticated p \<noteq> Some (JBool True)
        \<longrightarrow> \<not> verifySessionToken mac env nowMs (Jws h p sig))"
proof -
  have main: "verifySessionToken mac env nowMs tok \<longleftrightarrow>
      (\<exists>hdr payload.
          tok = Jws hdr payload (mac (sessionSecret env) (hdr, payload))
        \<and> alg hdr = ''HS256''
        \<and> (\<forall>v. claim_iat payload = Some v \<longrightarrow> isNumber v)
        \<and> (\<forall>v. claim_nbf payload = Some v \<longrightarrow> isNumber v \<and> numberOf v \<le> epoch nowMs)
        \<and> (\<forall>v. claim_exp payload = Some v \<longrightarrow> isNumber v \<and> epoch nowMs < numberOf v)
        \<and> claim_authenticated payload = Some (JBool True))" for tok
    by (cases tok)
       (auto simp: verifySessionToken_def jwtVerify_def SESSION_ALGO_def
             split: option.splits if_splits sum.splits)
  show ?thesis
    unfolding main by (auto simp: isNumber_def numberOf_def)
qed

theorem verifySessionToken_sound_witness:
  "verifySessionToken exampleMac (exampleEnv 3 30) 1700000000123
     (Jws \<lparr>alg = ''HS256''\<rparr>
          \<lparr>claim_authenticated = Some (JBool True), claim_iat = Some (JNum 1700000000),
           claim_nbf = None, claim_exp = Some (JNum 1700043200)\<rparr>
          (map of_char ''0123456789abcdef0123456789abcdef''))
   \<and> \<not> verifySessionToken exampleMac (exampleEnv 3 30) 1700000000123
     (Jws \<lparr>alg = ''HS256''\<rparr>
          \<lparr>claim_authenticated = Some (JBool True), claim_iat = Some (JNum 1700000000),
           claim_nbf = None, claim_exp = Some (JNum 1700043200)\<rparr>
          [])
   \<and> \<not> verifySessionToken exampleMac (exampleEnv 3 30) 1700043200000
     (Jws \<lparr>alg = ''HS256''\<rparr>
          \<lparr>claim_authenticated = Some (JBool True), claim_iat = Some (JNum 1700000000),
           claim_nbf = None, claim_exp = Some (JNum 1700043200)\<rparr>
          (map of_char ''0123456789abcdef0123456789abcdef''))"
  using verifySessionToken_sound [of exampleMac "exampleEnv 3 30" 1700000000123
      "Jws \<lparr>alg = ''HS256''\<rparr>
          \<lparr>claim_authenticated = Some (JBool True), claim_iat = Some (JNum 1700000000),
           claim_nbf = None, claim_exp = Some (JNum 1700043200)\<rparr>
          (map of_char ''0123456789abcdef0123456789abcdef'')"
      "[]" "\<lparr>alg = ''HS256''\<rparr>"
      "\<lparr>claim_authenticated = Some (JBool True), claim_iat = Some (JNum 1700000000),
           claim_nbf = None, claim_exp = Some (JNum 1700043200)\<rparr>" 0]
    verifySessionToken_sound [of exampleMac "exampleEnv 3 30" 1700043200000 Malformed
      "map of_char ''0123456789abcdef0123456789abcdef''" "\<lparr>alg = ''HS256''\<rparr>"
      "\<lparr>claim_authenticated = Some (JBool True), claim_iat = Some (JNum 1700000000),
           claim_nbf = None, claim_exp = Some (JNum 1700043200)\<rparr>" 1700043200]
  by (simp add: exampleMac_def exampleEnv_def isNumber_def numberOf_def epoch_def)

text \<open>
  C6. With a lifetime of at least one hour, the token issued when the clock reads \<open>now\<close>
  verifies at \<open>now\<close> and no longer verifies one second after the lifetime has passed,
  under any secret and MAC.
\<close>

theorem session_round_trip:
  assumes h: "1 \<le> sessionTtlHours env"
  shows "verifySessionToken mac env now (createSessionToken mac env iatMs now)
       \<and> \<not> verifySessionToken mac env (now + sessionTtlHours env * 60 * 60 * 1000 + 1000)
            (createSessionToken mac env iatMs now)"
proof -
  have "now + sessionTtlHours env * 60 * 60 * 1000 + 1000
          = now + (sessionTtlHours env * 3600 + 1) * 1000"
    by (simp add: algebra_simps)
  then have e: "epoch (now + sessionTtlHours env * 60 * 60 * 1000 + 1000)
             = epoch now + (sessionTtlHours env * 3600 + 1)"
    by (simp only: epoch_shift)
  have first: "verifySessionToken mac env now (createSessionToken mac env iatMs now)"
    unfolding verify_created using h by simp
  have second: "\<not> verifySessionToken mac env (now + sessionTtlHours env * 60 * 60 * 1000 + 1000)
            (createSessionToken mac env iatMs now)"
    unfolding verify_created e by simp
  show ?thesis using first second by (rule conjI)
qed

theorem session_round_trip_witness:
  "verifySessionToken exampleMac (exampleEnv 3 30) 1700000000123
     (createSessionToken exampleMac (exampleEnv 3 30) 1700000000100 1700000000123)
   \<and> \<not> verifySessionToken exampleMac (exampleEnv 3 30) 1700043201123
     (createSessionToken exampleMac (exampleEnv 3 30) 1700000000100 1700000000123)"
  using session_round_trip [of "exampleEnv 3 30" exampleMac 1700000000123 1700000000100]
  by (simp add: exampleEnv_def)

text \<open>
  C8. A login request with a malformed payload is answered 400 and leaves the world as
  it was: the table is neither read nor written and the verifier is not called.
\<close>

theorem malformed_payload_rejected:
  assumes "malformedPayload body"
  shows "POST mac verifySync env clk body w =
           (Inr \<lparr>status = 400, body_error = Some ''Invalid request payload'',
                 body_lockout = None, body_success = False, sessionCookie = None\<rparr>, w)"
proof -
  have "(case body of None \<Rightarrow> Inl ZodError | Some j \<Rightarrow> bodySchema_parse j) = Inl ZodError"
    using assms
    by (auto simp: malformedPayload_def bodySchema_parse_def Let_def trim_whitespace_length
             split: option.splits json.splits)
  then show ?thesis
    by (simp add: POST_def)
qed

theorem malformed_payload_rejected_witness:
  "POST exampleMac acceptAll (exampleEnv 3 30) (exampleClock 1000)
        (Some (JObj [(js ''code'', JStr (js ''  ''))])) (exampleWorld 2 0)
     = (Inr \<lparr>status = 400, body_error = Some ''Invalid request payload'',
             body_lockout = None, body_success = False, sessionCookie = None\<rparr>,
        exampleWorld 2 0)
   \<and> POST exampleMac acceptAll (exampleEnv 3 30) (exampleClock 1000)
        (Some (JObj [(js ''code'', JNum 123456)])) (exampleWorld 2 0)
     = (Inr \<lparr>status = 400, body_error = Some ''Invalid request payload'',
             body_lockout = None, body_success = False, sessionCookie = None\<rparr>,
        exampleWorld 2 0)
   \<and> POST exampleMac acceptAll (exampleEnv 3 30) (exampleClock 1000)
        (Some (JObj [])) (exampleWorld 2 0)
     = (Inr \<lparr>status = 400, body_error = Some ''Invalid request payload'',
             body_lockout = None, body_success = False, sessionCookie = None\<rparr>,
        exampleWorld 2 0)"
proof -
  have a: "malformedPayload (Some (JObj [(js ''code'', JStr (js ''  ''))]))"
    by (simp add: malformedPayload_def js_def isWhitespace_def)
  have b: "malformedPayload (Some (JObj [(js ''code'', JNum 123456)]))"
    by (simp add: malformedPayload_def)
  have c: "malformedPayload (Some (JObj []))"
    by (simp add: malformedPayload_def)
  show ?thesis
    using malformed_payload_rejected [OF a] malformed_payload_rejected [OF b]
      malformed_payload_rejected [OF c]
    by simp
qed


text \<open>
  C9. Any number of status queries, at any times, leave the counter and the lock of the
  store as they are read (0 and 0 for a store without a row, which the first query
  fills with the default entity) and leave an existing row untouched; a query repeated
  at the same clock reading, after any number of queries in between, gives the same
  answer.
\<close>

theorem status_query_idempotent:
  "lockoutRecord (statusQueries env qs w) = lockoutRecord w
   \<and> (table w \<noteq> None \<longrightarrow> table (statusQueries env qs w) = table w)
   \<and> fst (getLockoutStatus env stamp' now
            (statusQueries env qs (snd (getLockoutStatus env stamp now w))))
       = fst (getLockoutStatus env stamp now w)"
proof -
  let ?w1 = "snd (getLockoutStatus env stamp now w)"
  have a: "lockoutRecord (statusQueries env qs ?w1) = lockoutRecord w"
          "storageUp (statusQueries env qs ?w1) = storageUp w"
    using statusQueries_keeps [of env qs ?w1] getLockoutStatus_snd [of env stamp now w]
    by simp_all
  show ?thesis
    using statusQueries_keeps [of env qs w]
    by (simp add: getLockoutStatus_fst a)
qed

theorem status_query_idempotent_witness:
  "lockoutRecord (statusQueries (exampleEnv 3 30) [(''a'', 1000), (''b'', 2000)]
       \<lparr>table = None, storageUp = True, trace = []\<rparr>) = (0, 0)
   \<and> table (statusQueries (exampleEnv 3 30) [(''a'', 1000), (''b'', 2000)] (exampleWorld 2 0))
       = Some (exampleRow 2 0)"
  using status_query_idempotent [of "exampleEnv 3 30" "[(''a'', 1000), (''b'', 2000)]"
      "\<lparr>table = None, storageUp = True, trace = []\<rparr>" "''c''" 3000 "''d''"]
    status_query_idempotent [of "exampleEnv 3 30" "[(''a'', 1000), (''b'', 2000)]"
      "exampleWorld 2 0" "''c''" 3000 "''d''"]
  by (simp add: lockoutRecord_def defaultEntity_def)



text \<open>
  C10. With a ceiling of at least 1, as \<open>getEnv\<close> enforces, every entity that a status
  query, \<open>recordFailedAttempt\<close>, \<open>resetFailedAttempts\<close> or a login request writes to
  the table has a counter below the ceiling, and a counter of 0 when its lock is set,
  whatever the store held before. Hence, starting from an empty table, no sequence of
  these operations and of storage outages leaves a row with a counter at or above the
  ceiling.
\<close>

theorem stored_counter_below_ceiling:
  assumes "1 \<le> authMaxAttempts env"
  shows "(\<forall>e\<in>set (upserts (drop (length (trace w)) (trace (exec mac env x w)))).
            failedAttempts e < authMaxAttempts env
            \<and> (lockUntilEpochMs e \<noteq> 0 \<longrightarrow> failedAttempts e = 0))
       \<and> (table (run mac env xs \<lparr>table = None, storageUp = up, trace = []\<rparr>) = Some r \<longrightarrow>
            (\<exists>n l. p_failedAttempts r = Some n \<and> p_lockUntilEpochMs r = Some l
                   \<and> n < authMaxAttempts env \<and> (l \<noteq> 0 \<longrightarrow> n = 0)))"
proof -
  obtain evs where evs: "trace (exec mac env x w) = trace w @ evs"
      "\<forall>e\<in>set (upserts evs). counterInvariant env (failedAttempts e) (lockUntilEpochMs e)"
    using exec_ok [OF assms, of w mac x] by (auto simp: step_ok_def)
  have a: "\<forall>e\<in>set (upserts (drop (length (trace w)) (trace (exec mac env x w)))).
            failedAttempts e < authMaxAttempts env
            \<and> (lockUntilEpochMs e \<noteq> 0 \<longrightarrow> failedAttempts e = 0)"
    using evs by (simp add: counterInvariant_def)
  have "rowInvariant env (table (run mac env xs \<lparr>table = None, storageUp = up, trace = []\<rparr>))"
    by (rule run_invariant [OF assms]) (simp add: rowInvariant_def)
  then have b: "table (run mac env xs \<lparr>table = None, storageUp = up, trace = []\<rparr>) = Some r \<longrightarrow>
            (\<exists>n l. p_failedAttempts r = Some n \<and> p_lockUntilEpochMs r = Some l
                   \<and> n < authMaxAttempts env \<and> (l \<noteq> 0 \<longrightarrow> n = 0))"
    by (auto simp: rowInvariant_def counterInvariant_def)
  show ?thesis using a b by (rule conjI)
qed


theorem stored_counter_below_ceiling_witness:
  "1 \<le> authMaxAttempts (exampleEnv 2 30)
   \<and> upserts (drop (length (trace (exampleWorld 1 0)))
        (trace (exec exampleMac (exampleEnv 2 30) (FailedAttempt ''a'' 1000 ''b'' 1001)
                  (exampleWorld 1 0))))
     = [\<lparr>partitionKey = ''auth'', rowKey = ''global'', failedAttempts = 0,
         lockUntilEpochMs = 1801000, updatedAt = ''b''\<rparr>]
   \<and> table (run exampleMac (exampleEnv 2 30)
              [FailedAttempt ''a'' 1000 ''b'' 1001, FailedAttempt ''c'' 2000 ''d'' 2001]
              \<lparr>table = None, storageUp = True, trace = []\<rparr>)
     = Some \<lparr>p_failedAttempts = Some 0, p_lockUntilEpochMs = Some 1802000,
             p_updatedAt = Some ''d''\<rparr>"
proof -
  have m: "1 \<le> authMaxAttempts (exampleEnv 2 30)"
    by (simp add: exampleEnv_def)
  show ?thesis
    using stored_counter_below_ceiling [OF m, of "exampleWorld 1 0" exampleMac
        "FailedAttempt ''a'' 1000 ''b'' 1001"
        "[FailedAttempt ''a'' 1000 ''b'' 1001, FailedAttempt ''c'' 2000 ''d'' 2001]" True
        "\<lparr>p_failedAttempts = Some 0, p_lockUntilEpochMs = Some 1802000,
          p_updatedAt = Some ''d''\<rparr>"]
    by (simp add: exampleEnv_def exampleWorld_def exampleRow_def recordFailedAttempt_def
        getEntity_def initializeStorage_def table_getEntity_def table_upsertEntity_def
        saveEntity_def isNotFoundError_def defaultEntity_def normalizeEntity_def Let_def
        PARTITION_KEY_def ROW_KEY_def)
qed

end
